theory Spec2Isabelle
  imports Main
begin

unbundle bit_operations_syntax

section \<open>Strings, \<^verbatim>\<open>os.path\<close> and \<^verbatim>\<open>pathlib\<close> (POSIX flavour)\<close>

text \<open>
  The program manipulates paths both as strings (\<^verbatim>\<open>os.path.join\<close>, \<^verbatim>\<open>os.path.dirname\<close>,
  \<^verbatim>\<open>name[1:]\<close>, \<^verbatim>\<open>startswith\<close>) and as \<^verbatim>\<open>pathlib.Path\<close> objects. Both views are
  modelled: a string is a \<^typ>\<open>string\<close>, and a \<^verbatim>\<open>Path\<close> is the pair of its root
  (\<^verbatim>\<open>''\<close>, \<^verbatim>\<open>'/'\<close> or \<^verbatim>\<open>'//'\<close>) and its list of segments, which is what \<^verbatim>\<open>pathlib\<close>
  keeps after parsing. The separator is \<^verbatim>\<open>'/'\<close> throughout.
\<close>

text \<open>\<^verbatim>\<open>s.split('/')\<close>: never empty, \<^verbatim>\<open>''.split('/') == ['']\<close>.\<close>

fun split_sep :: "string \<Rightarrow> string list" where
  "split_sep [] = [[]]"
| "split_sep (c # cs) =
     (if c = CHR ''/'' then [] # split_sep cs
      else (case split_sep cs of [] \<Rightarrow> [[c]] | x # xs \<Rightarrow> (c # x) # xs))"

text \<open>\<^verbatim>\<open>'/'.join(xs)\<close>.\<close>

fun join_sep :: "string list \<Rightarrow> string" where
  "join_sep [] = []"
| "join_sep [x] = x"
| "join_sep (x # y # ys) = x @ CHR ''/'' # join_sep (y # ys)"

definition startswith :: "string \<Rightarrow> string \<Rightarrow> bool" where
  "startswith s p = (take (length p) s = p)"

definition endswith :: "string \<Rightarrow> string \<Rightarrow> bool" where
  "endswith s p = (length p \<le> length s \<and> drop (length s - length p) s = p)"

text \<open>
  \<^verbatim>\<open>posixpath.join(a, b)\<close> with two arguments: an absolute \<^verbatim>\<open>b\<close> replaces \<^verbatim>\<open>a\<close>; an
  empty \<^verbatim>\<open>a\<close> or one ending in the separator is extended directly.
\<close>

definition os_path_join :: "string \<Rightarrow> string \<Rightarrow> string" where
  "os_path_join a b =
     (if startswith b ''/'' then b
      else if a = [] \<or> endswith a ''/'' then a @ b
      else a @ ''/'' @ b)"

text \<open>
  \<^verbatim>\<open>posixpath.dirname(p)\<close>: \<^verbatim>\<open>head = p[:p.rfind('/')+1]\<close>; trailing separators are
  stripped from \<^verbatim>\<open>head\<close> unless it consists of separators only.
\<close>

definition os_path_dirname :: "string \<Rightarrow> string" where
  "os_path_dirname p =
     (let head = rev (dropWhile (\<lambda>c. c \<noteq> CHR ''/'') (rev p))
      in if head \<noteq> [] \<and> head \<noteq> replicate (length head) (CHR ''/'')
         then rev (dropWhile (\<lambda>c. c = CHR ''/'') (rev head))
         else head)"

text \<open>
  \<^verbatim>\<open>posixpath.normpath\<close> and \<^verbatim>\<open>posixpath.abspath\<close>, used by the watcher's event filter. The
  loop over the components is \<open>norm_comps\<close>; \<open>slashes\<close> is \<^verbatim>\<open>initial_slashes\<close>.
\<close>

fun norm_comps :: "nat \<Rightarrow> string list \<Rightarrow> string list \<Rightarrow> string list" where
  "norm_comps slashes new_comps [] = new_comps"
| "norm_comps slashes new_comps (c # cs) =
     (if c = [] \<or> c = ''.'' then norm_comps slashes new_comps cs
      else if c \<noteq> ''..'' \<or> (slashes = 0 \<and> new_comps = [])
              \<or> (new_comps \<noteq> [] \<and> last new_comps = ''..'')
           then norm_comps slashes (new_comps @ [c]) cs
      else if new_comps \<noteq> [] then norm_comps slashes (butlast new_comps) cs
      else norm_comps slashes new_comps cs)"

definition os_path_normpath :: "string \<Rightarrow> string" where
  "os_path_normpath p =
     (if p = [] then ''.''
      else let slashes = (if startswith p ''/''
                          then (if startswith p ''//'' \<and> \<not> startswith p ''///'' then 2 else 1)
                          else 0);
               r = replicate slashes (CHR ''/'') @ join_sep (norm_comps slashes [] (split_sep p))
           in if r = [] then ''.'' else r)"

definition os_path_abspath :: "string \<Rightarrow> string \<Rightarrow> string" where
  "os_path_abspath getcwd p =
     os_path_normpath (if startswith p ''/'' then p else os_path_join getcwd p)"

text \<open>
  \<^verbatim>\<open>os.path.splitext(p)[1]\<close>: the suffix from the last dot of the last segment, provided
  a character other than a dot precedes it in that segment.
\<close>

definition splitext_ext :: "string \<Rightarrow> string" where
  "splitext_ext p =
     (let base = rev (takeWhile (\<lambda>c. c \<noteq> CHR ''/'') (rev p));
          e = rev (takeWhile (\<lambda>c. c \<noteq> CHR ''.'') (rev base));
          stem = take (length base - length e - 1) base
      in if CHR ''.'' \<in> set base \<and> (\<exists>c \<in> set stem. c \<noteq> CHR ''.'') then CHR ''.'' # e else [])"

text \<open>
  A \<^verbatim>\<open>pathlib.PurePosixPath\<close>: \<open>anchor\<close> is its root, \<open>tail\<close> its segments. \<open>Path s\<close> is
  the constructor applied to a string: the root is \<^verbatim>\<open>'//'\<close> for exactly two leading
  separators, \<^verbatim>\<open>'/'\<close> for one or more than two, and the segments are the non-empty
  components other than \<^verbatim>\<open>'.'\<close>.
\<close>

record path =
  anchor :: string
  tail :: "string list"

definition Path :: "string \<Rightarrow> path" where
  "Path s =
     \<lparr>anchor = (if startswith s ''/''
                then (if startswith s ''//'' \<and> \<not> startswith s ''///'' then ''//'' else ''/'')
                else []),
      tail = filter (\<lambda>x. x \<noteq> [] \<and> x \<noteq> ''.'') (split_sep s)\<rparr>"

text \<open>\<^verbatim>\<open>Path.parts\<close>, \<^verbatim>\<open>Path.name\<close>, \<^verbatim>\<open>str(path)\<close> and \<^verbatim>\<open>Path.is_absolute()\<close>.\<close>

definition path_parts :: "path \<Rightarrow> string list" where
  "path_parts p = (if anchor p = [] then [] else [anchor p]) @ tail p"

definition path_name :: "path \<Rightarrow> string" where
  "path_name p = (if tail p = [] then [] else last (tail p))"

definition path_str :: "path \<Rightarrow> string" where
  "path_str p = (let s = anchor p @ join_sep (tail p) in if s = [] then ''.'' else s)"

definition is_absolute :: "path \<Rightarrow> bool" where
  "is_absolute p = (anchor p \<noteq> [])"

text \<open>
  The invariant of every \<^verbatim>\<open>Path\<close> object: the root is one of the three roots, and no
  segment is empty, a single dot, or contains the separator.
\<close>

definition segment_ok :: "string \<Rightarrow> bool" where
  "segment_ok x = (x \<noteq> [] \<and> x \<noteq> ''.'' \<and> CHR ''/'' \<notin> set x)"

definition wf_path :: "path \<Rightarrow> bool" where
  "wf_path p = ((anchor p = [] \<or> anchor p = ''/'' \<or> anchor p = ''//'') \<and> list_all segment_ok (tail p))"

text \<open>\<^verbatim>\<open>parent / child\<close> of \<^verbatim>\<open>pathlib\<close>: an absolute child replaces the parent.\<close>

definition path_joinpath :: "path \<Rightarrow> path \<Rightarrow> path" where
  "path_joinpath parent child =
     (if anchor child \<noteq> [] then child
      else \<lparr>anchor = anchor parent, tail = tail parent @ tail child\<rparr>)"

section \<open>Handles, the file system and the process state\<close>

datatype error =
    FileNotFoundError
  | FileExistsError
  | NotADirectoryError
  | IsADirectoryError
  | PermissionError
  | AssertionError
  | NotImplementedError
  | AttributeError
  | ArgumentError
  | OSError

text \<open>The handle classes of the program and its \<^verbatim>\<open>FileMode\<close> enumeration.\<close>

datatype cls = CSysObj | CFolder | CFile | CJSON

datatype FileMode = FIND | CREATE | UPDATE | OVERWRITE

text \<open>
  The attributes of a \<^verbatim>\<open>SysObj\<close>; a private attribute \<^verbatim>\<open>_x\<close> is the field \<open>u_x\<close>.
  Handles are objects with identity: they live in a heap and are referred to by address,
  so \<open>u_parent\<close> and the values of \<open>u_directory\<close> (a \<^verbatim>\<open>dict\<close> in insertion order) are
  addresses.
\<close>

record SysObj =
  u_cls :: cls
  u_path :: path
  u_name :: string
  u_was_detected :: bool
  u_is_dir :: bool
  u_parent :: "nat option"
  u_protected :: bool
  u_ext :: string
  u_is_root :: bool
  u_indexed :: bool
  u_directory :: "(string \<times> nat) list"

definition blank :: "cls \<Rightarrow> SysObj" where
  "blank c =
     \<lparr>u_cls = c, u_path = \<lparr>anchor = [], tail = []\<rparr>, u_name = [], u_was_detected = False,
      u_is_dir = False, u_parent = None, u_protected = False, u_ext = [], u_is_root = False,
      u_indexed = False, u_directory = []\<rparr>"

text \<open>What the program accepts where it says \<^verbatim>\<open>str | Path | SysObj\<close>.\<close>

datatype pathlike = Str string | PathObj path | Obj SysObj

text \<open>
  A node of the file system: a file with its Windows attribute word and its content, or
  a directory with its attribute word. The file system maps absolute segment lists to
  nodes; the root directory is the empty list.
\<close>

datatype node = FileNode int string | DirNode int

text \<open>
  The process: the file system and the working directory, the platform flag
  \<^verbatim>\<open>options.platform.windows\<close>, the heap of handles with its next free address, the two
  class attributes of \<^verbatim>\<open>runtime_properties\<close>, the folders whose listener has been started
  (one entry per started \<^verbatim>\<open>Observer\<close>), and what was printed.
\<close>

record world =
  fs :: "(string list \<times> node) list"
  cwd :: "string list"
  windows :: bool
  heap :: "nat \<Rightarrow> SysObj"
  next_id :: nat
  rp_root :: "nat option"
  rp_created_instances :: "path list"
  observers :: "nat list"
  printed :: "string list"

text \<open>
  A computation reads and changes the process and ends in a value or in an exception;
  the process state survives the exception.
\<close>

type_synonym 'a io = "world \<Rightarrow> (error + 'a) \<times> world"

definition ret :: "'a \<Rightarrow> 'a io" where
  "ret x w = (Inr x, w)"

definition throw :: "error \<Rightarrow> 'a io" where
  "throw e w = (Inl e, w)"

definition bnd :: "'a io \<Rightarrow> ('a \<Rightarrow> 'b io) \<Rightarrow> 'b io" where
  "bnd m f w = (case m w of (Inl e, w') \<Rightarrow> (Inl e, w') | (Inr x, w') \<Rightarrow> f x w')"

definition set_obj :: "nat \<Rightarrow> (SysObj \<Rightarrow> SysObj) \<Rightarrow> world \<Rightarrow> world" where
  "set_obj i f w = w\<lparr>heap := (heap w)(i := f (heap w i))\<rparr>"

definition alloc :: "cls \<Rightarrow> nat io" where
  "alloc c w = (Inr (next_id w), w\<lparr>heap := (heap w)(next_id w := blank c), next_id := Suc (next_id w)\<rparr>)"

section \<open>Native file system calls\<close>

text \<open>
  The collaborators of the program, as POSIX defines them on a file system without links.
  A path is resolved from the root or from the working directory, segment by segment;
  every directory that is walked through must exist, and \<^verbatim>\<open>'..'\<close> steps to the parent.
\<close>

definition lookup :: "world \<Rightarrow> string list \<Rightarrow> node option" where
  "lookup w q = map_of (fs w) q"

fun walk :: "(string list \<times> node) list \<Rightarrow> string list \<Rightarrow> string list \<Rightarrow> error + string list" where
  "walk f cur [] = Inr cur"
| "walk f cur (c # cs) =
     (case map_of f cur of
        None \<Rightarrow> Inl FileNotFoundError
      | Some (FileNode a s) \<Rightarrow> Inl NotADirectoryError
      | Some (DirNode a) \<Rightarrow> walk f (if c = ''..'' then butlast cur else cur @ [c]) cs)"

definition resolve :: "world \<Rightarrow> path \<Rightarrow> error + string list" where
  "resolve w p = walk (fs w) (if anchor p = [] then cwd w else []) (tail p)"

text \<open>\<^verbatim>\<open>os.stat\<close>: where the path leads and what is there.\<close>

definition stat :: "world \<Rightarrow> path \<Rightarrow> error + (string list \<times> node)" where
  "stat w p =
     (case resolve w p of
        Inl e \<Rightarrow> Inl e
      | Inr q \<Rightarrow> (case lookup w q of None \<Rightarrow> Inl FileNotFoundError | Some n \<Rightarrow> Inr (q, n)))"

text \<open>\<^verbatim>\<open>Path.exists()\<close> and \<^verbatim>\<open>Path.is_dir()\<close>: false when the path cannot be resolved.\<close>

definition path_exists :: "world \<Rightarrow> path \<Rightarrow> bool" where
  "path_exists w p = (case stat w p of Inl e \<Rightarrow> False | Inr r \<Rightarrow> True)"

definition path_is_dir :: "world \<Rightarrow> path \<Rightarrow> bool" where
  "path_is_dir w p = (case stat w p of Inr (q, DirNode a) \<Rightarrow> True | _ \<Rightarrow> False)"

text \<open>\<^verbatim>\<open>os.path.samefile\<close>: both paths must exist; identity is that of the node reached.\<close>

definition samefile :: "path \<Rightarrow> path \<Rightarrow> bool io" where
  "samefile a b w =
     (case stat w a of
        Inl e \<Rightarrow> (Inl e, w)
      | Inr (qa, na) \<Rightarrow>
          (case stat w b of Inl e \<Rightarrow> (Inl e, w) | Inr (qb, nb) \<Rightarrow> (Inr (qa = qb), w)))"

text \<open>\<open>is_under q k\<close>: \<open>k\<close> is \<open>q\<close> or lies in the tree below \<open>q\<close>.\<close>

definition is_under :: "string list \<Rightarrow> string list \<Rightarrow> bool" where
  "is_under q k = (take (length q) k = q)"

text \<open>
  \<^verbatim>\<open>os.mkdir(path)\<close>. A new directory carries the attribute word \<^verbatim>\<open>0x10\<close>
  (\<^verbatim>\<open>FILE_ATTRIBUTE_DIRECTORY\<close>), a new file \<^verbatim>\<open>0x20\<close> (\<^verbatim>\<open>FILE_ATTRIBUTE_ARCHIVE\<close>).
\<close>

definition os_mkdir :: "path \<Rightarrow> unit io" where
  "os_mkdir p w =
     (case resolve w p of
        Inl e \<Rightarrow> (Inl e, w)
      | Inr q \<Rightarrow>
          (case lookup w q of
             Some n \<Rightarrow> (Inl FileExistsError, w)
           | None \<Rightarrow>
               if tail p = [] \<or> last (tail p) = ''..'' then (Inl FileNotFoundError, w)
               else (Inr (), w\<lparr>fs := (q, DirNode 16) # fs w\<rparr>)))"

text \<open>\<^verbatim>\<open>open(path, 'w').close()\<close>: creates an empty file or truncates an existing one.\<close>

definition open_w :: "path \<Rightarrow> unit io" where
  "open_w p w =
     (case resolve w p of
        Inl e \<Rightarrow> (Inl e, w)
      | Inr q \<Rightarrow>
          (case lookup w q of
             Some (DirNode a) \<Rightarrow> (Inl IsADirectoryError, w)
           | Some (FileNode a s) \<Rightarrow>
               (Inr (), w\<lparr>fs := map (\<lambda>(k, n). if k = q then (k, FileNode a []) else (k, n)) (fs w)\<rparr>)
           | None \<Rightarrow>
               if tail p = [] \<or> last (tail p) = ''..'' then (Inl FileNotFoundError, w)
               else (Inr (), w\<lparr>fs := (q, FileNode 32 []) # fs w\<rparr>)))"

text \<open>\<^verbatim>\<open>os.remove(path)\<close>: files only.\<close>

definition os_remove :: "path \<Rightarrow> unit io" where
  "os_remove p w =
     (case stat w p of
        Inl e \<Rightarrow> (Inl e, w)
      | Inr (q, DirNode a) \<Rightarrow> (Inl IsADirectoryError, w)
      | Inr (q, FileNode a s) \<Rightarrow> (Inr (), w\<lparr>fs := filter (\<lambda>(k, n). k \<noteq> q) (fs w)\<rparr>))"

text \<open>
  \<^verbatim>\<open>os.rmdir(path)\<close>: an empty directory other than the root directory. A path whose
  last segment is \<^verbatim>\<open>'..'\<close> leads to a directory that still holds the one it was reached
  through, so it is refused as not empty.
\<close>

definition os_rmdir :: "path \<Rightarrow> unit io" where
  "os_rmdir p w =
     (case stat w p of
        Inl e \<Rightarrow> (Inl e, w)
      | Inr (q, FileNode a s) \<Rightarrow> (Inl NotADirectoryError, w)
      | Inr (q, DirNode a) \<Rightarrow>
          if q = [] \<or> list_ex (\<lambda>(k, n). k \<noteq> q \<and> is_under q k) (fs w) then (Inl OSError, w)
          else (Inr (), w\<lparr>fs := filter (\<lambda>(k, n). k \<noteq> q) (fs w)\<rparr>))"

text \<open>
  \<^verbatim>\<open>shutil.rmtree(path)\<close>: directories only. The directory is opened, everything below
  it is removed through the open directory, and at the end \<^verbatim>\<open>os.rmdir(path)\<close> resolves
  the path once more, in the file system as it is by then. So the call fails, with the
  directory emptied but still there, when the path leads to the root directory or runs
  through a directory that the call itself has removed (as a path ending in \<^verbatim>\<open>'..'\<close>
  does).
\<close>

definition rmtree :: "path \<Rightarrow> unit io" where
  "rmtree p w =
     (case stat w p of
        Inl e \<Rightarrow> (Inl e, w)
      | Inr (q, FileNode a s) \<Rightarrow> (Inl NotADirectoryError, w)
      | Inr (q, DirNode a) \<Rightarrow>
          os_rmdir p (w\<lparr>fs := filter (\<lambda>(k, n). k = q \<or> \<not> is_under q k) (fs w)\<rparr>))"

text \<open>\<^verbatim>\<open>os.listdir(path)\<close>: the names of the immediate entries.\<close>

definition listdir :: "path \<Rightarrow> string list io" where
  "listdir p w =
     (case stat w p of
        Inl e \<Rightarrow> (Inl e, w)
      | Inr (q, FileNode a s) \<Rightarrow> (Inl NotADirectoryError, w)
      | Inr (q, DirNode a) \<Rightarrow>
          (Inr (map (\<lambda>(k, n). last k) (filter (\<lambda>(k, n). k \<noteq> [] \<and> butlast k = q) (fs w))), w))"

text \<open>
  \<^verbatim>\<open>os.rename(src, dst)\<close> on a POSIX system, \<open>dst\<close> given as a string. An empty \<open>dst\<close>
  does not exist; neither path may end in \<^verbatim>\<open>'.'\<close> or \<^verbatim>\<open>'..'\<close>; \<open>dst\<close> may not lie below
  \<open>src\<close>. An existing \<open>dst\<close> is replaced silently when both are files or when both are
  directories and \<open>dst\<close> is empty; a file onto a directory is \<^verbatim>\<open>IsADirectoryError\<close>, a
  directory onto a file \<^verbatim>\<open>NotADirectoryError\<close>, a directory onto a non-empty directory
  \<^verbatim>\<open>OSError\<close>. Renaming moves the whole tree below \<open>src\<close>.
\<close>

definition move_tree :: "string list \<Rightarrow> string list \<Rightarrow> (string list \<times> node) list \<Rightarrow> (string list \<times> node) list" where
  "move_tree qs qd f =
     map (\<lambda>(k, n). if is_under qs k then (qd @ drop (length qs) k, n) else (k, n))
       (filter (\<lambda>(k, n). k \<noteq> qd) f)"

definition os_rename :: "path \<Rightarrow> string \<Rightarrow> unit io" where
  "os_rename src dst w =
     (if dst = [] then (Inl FileNotFoundError, w)
      else if tail src = [] \<or> last (tail src) = ''..''
              \<or> last (split_sep dst) = ''.'' \<or> last (split_sep dst) = ''..''
           then (Inl OSError, w)
      else case stat w src of
        Inl e \<Rightarrow> (Inl e, w)
      | Inr (qs, ns) \<Rightarrow>
          (case resolve w (Path dst) of
             Inl e \<Rightarrow> (Inl e, w)
           | Inr qd \<Rightarrow>
               if endswith dst ''/'' \<and> (case ns of FileNode a s \<Rightarrow> True | DirNode a \<Rightarrow> False)
               then (Inl NotADirectoryError, w)
               else if qd = qs then (Inr (), w)
               else if is_under qs qd then (Inl OSError, w)
               else (case (ns, lookup w qd) of
                       (FileNode a s, Some (DirNode b)) \<Rightarrow> (Inl IsADirectoryError, w)
                     | (DirNode a, Some (FileNode b s)) \<Rightarrow> (Inl NotADirectoryError, w)
                     | (DirNode a, Some (DirNode b)) \<Rightarrow>
                         if list_ex (\<lambda>(k, n). k \<noteq> qd \<and> is_under qd k) (fs w)
                         then (Inl OSError, w)
                         else (Inr (), w\<lparr>fs := move_tree qs qd (fs w)\<rparr>)
                     | (FileNode a s, Some (FileNode b t)) \<Rightarrow>
                         (Inr (), w\<lparr>fs := move_tree qs qd (fs w)\<rparr>)
                     | (n, None) \<Rightarrow>
                         if tail (Path dst) = [] then (Inl FileNotFoundError, w)
                         else (Inr (), w\<lparr>fs := move_tree qs qd (fs w)\<rparr>))))"

text \<open>
  The two \<^verbatim>\<open>kernel32\<close> functions, called through \<^verbatim>\<open>ctypes.windll\<close> without declared
  argument types. \<^verbatim>\<open>ctypes\<close> converts a \<^verbatim>\<open>str\<close> argument and passes it on; it cannot convert
  a \<^verbatim>\<open>pathlib.Path\<close> or a handle, and then raises \<^verbatim>\<open>ctypes.ArgumentError\<close> before the
  function runs. \<^verbatim>\<open>GetFileAttributesW\<close> returns \<^verbatim>\<open>-1\<close> for a path that does not exist;
  \<^verbatim>\<open>SetFileAttributesW\<close> reports failure in its result, which the program ignores.
\<close>

definition GetFileAttributesW :: "pathlike \<Rightarrow> int io" where
  "GetFileAttributesW x w =
     (case x of
        Str s \<Rightarrow>
          (Inr (case stat w (Path s) of
                  Inl e \<Rightarrow> - 1
                | Inr (q, FileNode a c) \<Rightarrow> a
                | Inr (q, DirNode a) \<Rightarrow> a), w)
      | PathObj p \<Rightarrow> (Inl ArgumentError, w)
      | Obj ob \<Rightarrow> (Inl ArgumentError, w))"

definition SetFileAttributesW :: "pathlike \<Rightarrow> int \<Rightarrow> unit io" where
  "SetFileAttributesW x attrs w =
     (case x of
        Str s \<Rightarrow>
          (case stat w (Path s) of
             Inl e \<Rightarrow> (Inr (), w)
           | Inr (q, nd) \<Rightarrow>
               (Inr (), w\<lparr>fs := map (\<lambda>(k, n). if k = q
                                      then (k, case n of FileNode a c \<Rightarrow> FileNode attrs c
                                                       | DirNode a \<Rightarrow> DirNode attrs)
                                      else (k, n)) (fs w)\<rparr>))
      | PathObj p \<Rightarrow> (Inl ArgumentError, w)
      | Obj ob \<Rightarrow> (Inl ArgumentError, w))"

section \<open>The static functions\<close>

text \<open>
  \<^verbatim>\<open>ensure_path\<close>: a string is parsed, a \<^verbatim>\<open>Path\<close> is kept, a handle gives its path.
\<close>

definition ensure_path :: "pathlike \<Rightarrow> path" where
  "ensure_path x = (case x of Str s \<Rightarrow> Path s | PathObj p \<Rightarrow> p | Obj ob \<Rightarrow> u_path ob)"

text \<open>
  \<^verbatim>\<open>parse_path(parent, path)\<close>. The \<^verbatim>\<open>assert\<close> on the number of parts is the only
  failure; the joined path is built on strings and parsed again.
\<close>

definition parse_path :: "pathlike option \<Rightarrow> pathlike \<Rightarrow> error + path" where
  "parse_path parent pth =
     (let p = ensure_path pth
      in case parent of
           None \<Rightarrow> Inr p
         | Some par \<Rightarrow>
             if length (path_parts p) \<noteq> 1 then Inl AssertionError
             else Inr (Path (os_path_join (path_str (ensure_path par)) (path_str p))))"

text \<open>\<^verbatim>\<open>delete_path(path)\<close>.\<close>

definition delete_path :: "path \<Rightarrow> unit io" where
  "delete_path p w = (if path_is_dir w p then rmtree p w else os_remove p w)"

section \<open>\<^verbatim>\<open>SysObj\<close>\<close>

text \<open>
  Python's truth value of the \<^verbatim>\<open>parent\<close> argument (\<^verbatim>\<open>if parent:\<close>): \<^verbatim>\<open>None\<close> and the
  empty string are false.
\<close>

definition truthy :: "pathlike option \<Rightarrow> bool" where
  "truthy parent =
     (case parent of None \<Rightarrow> False | Some (Str s) \<Rightarrow> s \<noteq> [] | Some (PathObj p) \<Rightarrow> True | Some (Obj ob) \<Rightarrow> True)"

text \<open>
  \<^verbatim>\<open>__create__\<close> as \<^verbatim>\<open>_setup_wrapper\<close> wraps it: the path is recorded in
  \<^verbatim>\<open>created_instances\<close>, then the class creates the object. The base class raises
  \<^verbatim>\<open>NotImplementedError\<close>, a folder calls \<^verbatim>\<open>os.mkdir\<close>, a file opens itself for writing.
\<close>

definition create :: "nat \<Rightarrow> unit io" where
  "create self w =
     (let ob = heap w self;
          w1 = w\<lparr>rp_created_instances := rp_created_instances w @ [u_path ob]\<rparr>
      in case u_cls ob of
           CSysObj \<Rightarrow> (Inl NotImplementedError, w1)
         | CFolder \<Rightarrow> os_mkdir (u_path ob) w1
         | CFile \<Rightarrow> open_w (u_path ob) w1
         | CJSON \<Rightarrow> open_w (u_path ob) w1)"

text \<open>\<^verbatim>\<open>SysObj.rm\<close>.\<close>

definition rm :: "nat \<Rightarrow> unit io" where
  "rm self w =
     (if u_protected (heap w self) then (Inl PermissionError, w)
      else delete_path (u_path (heap w self)) w)"

text \<open>\<^verbatim>\<open>__params__\<close>: a file (and a JSON file) computes its extension.\<close>

definition params :: "nat \<Rightarrow> world \<Rightarrow> world" where
  "params self w =
     (case u_cls (heap w self) of
        CSysObj \<Rightarrow> w
      | CFolder \<Rightarrow> w
      | CFile \<Rightarrow> set_obj self (\<lambda>ob. ob\<lparr>u_ext := splitext_ext (u_name ob)\<rparr>) w
      | CJSON \<Rightarrow> set_obj self (\<lambda>ob. ob\<lparr>u_ext := splitext_ext (u_name ob)\<rparr>) w)"

text \<open>
  \<^verbatim>\<open>__validate__\<close>: a folder found on disk must be a directory, a file found on disk
  must not be one; a file without extension is reported on the console; a JSON file
  must have an extension ending in \<^verbatim>\<open>.json\<close>.
\<close>

definition apostrophe :: string where
  "apostrophe = [CHR 0x27]"

definition validate_file :: "nat \<Rightarrow> unit io" where
  "validate_file self w =
     (let ob = heap w self;
          w1 = (if u_ext ob = []
                then w\<lparr>printed := printed w @ [apostrophe @ u_name ob @ apostrophe @ '' does not have an extension!'']\<rparr>
                else w)
      in if u_was_detected ob \<and> u_is_dir ob then (Inl AssertionError, w1) else (Inr (), w1))"

definition validate :: "nat \<Rightarrow> unit io" where
  "validate self w =
     (case u_cls (heap w self) of
        CSysObj \<Rightarrow> (Inr (), w)
      | CFolder \<Rightarrow>
          if u_was_detected (heap w self) \<and> \<not> u_is_dir (heap w self) then (Inl AssertionError, w)
          else (Inr (), w)
      | CFile \<Rightarrow> validate_file self w
      | CJSON \<Rightarrow>
          bnd (validate_file self)
            (\<lambda>u w1. if endswith (u_ext (heap w1 self)) ''.json'' then (Inr (), w1)
                     else (Inl AssertionError, w1)) w)"

text \<open>
  \<^verbatim>\<open>__configure__\<close>: a folder resets its index and starts a listener on its path.
\<close>

definition configure :: "nat \<Rightarrow> world \<Rightarrow> world" where
  "configure self w =
     (case u_cls (heap w self) of
        CFolder \<Rightarrow>
          (set_obj self (\<lambda>ob. ob\<lparr>u_indexed := False, u_directory := []\<rparr>) w)
            \<lparr>observers := observers w @ [self]\<rparr>
      | _ \<Rightarrow> w)"

text \<open>
  \<^verbatim>\<open>SysObj.__init__\<close>, in the three parts of its body.

  First part (up to \<^verbatim>\<open>self.__validate__()\<close>): the parent, when given and true, must be a
  directory; the path is resolved by \<^verbatim>\<open>parse_path\<close>; existence and kind are sampled once;
  the process-wide root is set to this handle if there is none yet; \<^verbatim>\<open>_protected\<close> is
  cleared; the class sets its parameters and validates. \<open>detect\<close> is the run of
  assignments between \<^verbatim>\<open>parse_path\<close> and \<^verbatim>\<open>__params__\<close>.
\<close>

definition detect :: "nat \<Rightarrow> path \<Rightarrow> world \<Rightarrow> world" where
  "detect self p w =
     (let w1 = set_obj self (\<lambda>ob. ob\<lparr>u_path := p, u_name := path_name p,
                                          u_was_detected := path_exists w p,
                                          u_is_dir := path_is_dir w p\<rparr>) w;
          w2 = (if rp_root w1 = None then w1\<lparr>rp_root := Some self\<rparr> else w1)
      in set_obj self (\<lambda>ob. ob\<lparr>u_parent := None, u_protected := False\<rparr>) w2)"

definition init_detect :: "nat \<Rightarrow> pathlike \<Rightarrow> pathlike option \<Rightarrow> unit io" where
  "init_detect self pth parent w =
     (if truthy parent \<and> (case parent of None \<Rightarrow> False | Some par \<Rightarrow> \<not> path_is_dir w (ensure_path par))
      then (Inl AssertionError, w)
      else case parse_path parent pth of
        Inl e \<Rightarrow> (Inl e, w)
      | Inr p \<Rightarrow> validate self (params self (detect self p w)))"

text \<open>
  Second part: the \<^verbatim>\<open>match mode\<close> statement, which decides from the sampled existence.
\<close>

definition reconcile :: "nat \<Rightarrow> FileMode \<Rightarrow> unit io" where
  "reconcile self mode w =
     (case mode of
        FIND \<Rightarrow>
          if \<not> u_was_detected (heap w self) then (Inl FileNotFoundError, w) else (Inr (), w)
      | CREATE \<Rightarrow>
          if u_was_detected (heap w self) then (Inl FileExistsError, w) else create self w
      | UPDATE \<Rightarrow>
          if \<not> u_was_detected (heap w self) then create self w else (Inr (), w)
      | OVERWRITE \<Rightarrow>
          bnd (if u_was_detected (heap w self) then rm self else ret ()) (\<lambda>u. create self) w)"

text \<open>
  Third part: \<^verbatim>\<open>_is_root\<close> is the identity of the handle's path with the root handle's
  path (\<^verbatim>\<open>os.path.samefile\<close>, which needs both to exist), then \<^verbatim>\<open>__configure__\<close>.
\<close>

definition init_finish :: "nat \<Rightarrow> unit io" where
  "init_finish self w =
     (case rp_root w of
        None \<Rightarrow> (Inl AttributeError, w)
      | Some r \<Rightarrow>
          (case samefile (u_path (heap w self)) (u_path (heap w r)) w of
             (Inl e, w1) \<Rightarrow> (Inl e, w1)
           | (Inr b, w1) \<Rightarrow>
               (Inr (), configure self (set_obj self (\<lambda>ob. ob\<lparr>u_is_root := b, u_parent := None\<rparr>) w1))))"

definition init :: "nat \<Rightarrow> pathlike \<Rightarrow> FileMode \<Rightarrow> pathlike option \<Rightarrow> unit io" where
  "init self pth mode parent =
     bnd (init_detect self pth parent) (\<lambda>u. bnd (reconcile self mode) (\<lambda>v. init_finish self))"

text \<open>
  A constructor call \<^verbatim>\<open>Folder(...)\<close>, \<^verbatim>\<open>File(...)\<close>, \<^verbatim>\<open>JSON(...)\<close>: a new object of
  the class is allocated and initialised; the caller gets its address if no exception
  was raised.
\<close>

definition construct :: "cls \<Rightarrow> pathlike \<Rightarrow> FileMode \<Rightarrow> pathlike option \<Rightarrow> nat io" where
  "construct c pth mode parent = bnd (alloc c) (\<lambda>i. bnd (init i pth mode parent) (\<lambda>u. ret i))"

text \<open>\<^verbatim>\<open>dirpath\<close>, \<^verbatim>\<open>_ishidden\<close> and \<^verbatim>\<open>get_win_file_attrs\<close>.\<close>

definition dirpath :: "SysObj \<Rightarrow> string" where
  "dirpath ob = os_path_dirname (path_str (u_path ob))"

definition get_win_file_attrs :: "pathlike \<Rightarrow> int io" where
  "get_win_file_attrs x =
     bnd (GetFileAttributesW x)
       (\<lambda>attrs w. if attrs = - 1 then (Inl FileNotFoundError, w) else (Inr attrs, w))"

definition ishidden :: "nat \<Rightarrow> bool io" where
  "ishidden self w =
     (if windows w
      then bnd (get_win_file_attrs (PathObj (u_path (heap w self)))) (\<lambda>attrs. ret (attrs AND 2 \<noteq> 0)) w
      else (Inr (startswith (u_name (heap w self)) ''.''), w))"

text \<open>
  \<^verbatim>\<open>SysObj.hide\<close>. \<^verbatim>\<open>hide and self.ishidden\<close> evaluates \<^verbatim>\<open>ishidden\<close> only when \<^verbatim>\<open>hide\<close> is
  true. On Windows the attribute functions are called with \<^verbatim>\<open>self.path\<close>, a \<^verbatim>\<open>Path\<close>;
  elsewhere the path is renamed and the same object is initialised again in \<^verbatim>\<open>FIND\<close> mode
  on the new path.
\<close>

definition hide :: "nat \<Rightarrow> bool \<Rightarrow> unit io" where
  "hide self h w =
     (case (if h then ishidden self w else (Inr False, w)) of
        (Inl e, w1) \<Rightarrow> (Inl e, w1)
      | (Inr hidden, w1) \<Rightarrow>
          if h \<and> hidden then (Inr (), w1)
          else if windows w1 then
            (if h then SetFileAttributesW (PathObj (u_path (heap w1 self))) 2 w1
             else bnd (get_win_file_attrs (PathObj (u_path (heap w1 self))))
                    (\<lambda>attrs. SetFileAttributesW (PathObj (u_path (heap w1 self))) (attrs AND NOT 2)) w1)
          else
            (let ob = heap w1 self;
                 new_path_str = (if h then os_path_join (dirpath ob) (''.'' @ u_name ob)
                                 else os_path_join (dirpath ob) (drop 1 (u_name ob)))
             in bnd (os_rename (u_path ob) new_path_str)
                  (\<lambda>u. init self (Str new_path_str) FIND None) w1))"

section \<open>\<^verbatim>\<open>Folder\<close>\<close>

text \<open>\<^verbatim>\<open>assign_type(path)\<close>: a folder handle for a directory, a file handle otherwise.\<close>

definition assign_type :: "path \<Rightarrow> nat io" where
  "assign_type p w =
     (if path_is_dir w p then construct CFolder (PathObj p) UPDATE None w
      else construct CFile (PathObj p) UPDATE None w)"

text \<open>Assignment to a \<^verbatim>\<open>dict\<close>: a known key keeps its place, a new key goes last.\<close>

fun dict_set :: "(string \<times> nat) list \<Rightarrow> string \<Rightarrow> nat \<Rightarrow> (string \<times> nat) list" where
  "dict_set [] k v = [(k, v)]"
| "dict_set ((k', v') # d) k v = (if k' = k then (k, v) # d else (k', v') # dict_set d k v)"

text \<open>
  The dictionary comprehension of \<^verbatim>\<open>_update_dir\<close>: one handle per listed name, built
  from the folder's path joined with the name.
\<close>

fun build_dir :: "path \<Rightarrow> string list \<Rightarrow> (string \<times> nat) list \<Rightarrow> (string \<times> nat) list io" where
  "build_dir p [] acc w = (Inr acc, w)"
| "build_dir p (filename # contents) acc w =
     (case assign_type (Path (os_path_join (path_str p) filename)) w of
        (Inl e, w1) \<Rightarrow> (Inl e, w1)
      | (Inr i, w1) \<Rightarrow> build_dir p contents (dict_set acc filename i) w1)"

definition update_dir :: "nat \<Rightarrow> unit io" where
  "update_dir self w =
     (case listdir (u_path (heap w self)) w of
        (Inl e, w1) \<Rightarrow> (Inl e, w1)
      | (Inr contents, w1) \<Rightarrow>
          (case build_dir (u_path (heap w1 self)) contents [] w1 of
             (Inl e, w2) \<Rightarrow> (Inl e, w2)
           | (Inr d, w2) \<Rightarrow> (Inr (), set_obj self (\<lambda>ob. ob\<lparr>u_directory := d\<rparr>) w2)))"

text \<open>The property \<^verbatim>\<open>Folder.directory\<close>.\<close>

definition directory :: "nat \<Rightarrow> (string \<times> nat) list io" where
  "directory self w =
     (if \<not> u_indexed (heap w self)
      then bnd (update_dir self) (\<lambda>u w1. (Inr (u_directory (heap w1 self)), w1))
             (set_obj self (\<lambda>ob. ob\<lparr>u_indexed := True\<rparr>) w)
      else (Inr (u_directory (heap w self)), w))"

text \<open>
  \<^verbatim>\<open>Folder._search_dir\<close>: the property is read once for the membership test and once
  more for \<^verbatim>\<open>get\<close>; on a miss a line is printed and the result is \<^verbatim>\<open>None\<close>.
\<close>

definition search_dir :: "nat \<Rightarrow> string \<Rightarrow> nat option io" where
  "search_dir self target w =
     (case directory self w of
        (Inl e, w1) \<Rightarrow> (Inl e, w1)
      | (Inr d, w1) \<Rightarrow>
          if target \<in> set (map fst d)
          then bnd (directory self) (\<lambda>d2. ret (map_of d2 target)) w1
          else (Inr None,
                w1\<lparr>printed := printed w1 @
                   [apostrophe @ target @ apostrophe @ '' does not exist in '' @ apostrophe
                    @ path_str (u_path (heap w1 self)) @ apostrophe]\<rparr>))"

text \<open>
  \<^verbatim>\<open>Folder.get(target, timeout)\<close>: the waiting is a \<^verbatim>\<open>TODO\<close> of the source; the body is the
  search alone and the timeout is not read.
\<close>

definition get :: "nat \<Rightarrow> string \<Rightarrow> nat \<Rightarrow> nat option io" where
  "get self target timeout = search_dir self target"

text \<open>\<^verbatim>\<open>Folder.mkdir\<close> and \<^verbatim>\<open>Folder.mk\<close>: constructors with this folder's path as parent.\<close>

definition mkdir :: "nat \<Rightarrow> pathlike \<Rightarrow> FileMode \<Rightarrow> nat io" where
  "mkdir self target mode w = construct CFolder target mode (Some (PathObj (u_path (heap w self)))) w"

definition mk :: "nat \<Rightarrow> pathlike \<Rightarrow> FileMode \<Rightarrow> nat io" where
  "mk self target mode w = construct CFile target mode (Some (PathObj (u_path (heap w self)))) w"

text \<open>
  The listener's handler. \<^verbatim>\<open>direct(event)\<close> compares the parent directory of the
  event's absolute path with the folder's path by file identity; a creation or a
  deletion that is direct rebuilds the index by \<^verbatim>\<open>_update_dir\<close>, a modification does
  nothing.
\<close>

definition getcwd :: "world \<Rightarrow> string" where
  "getcwd w = CHR ''/'' # join_sep (cwd w)"

definition direct :: "nat \<Rightarrow> string \<Rightarrow> bool io" where
  "direct self src_path w =
     samefile (Path (os_path_dirname (os_path_abspath (getcwd w) src_path))) (u_path (heap w self)) w"

definition on_created :: "nat \<Rightarrow> string \<Rightarrow> unit io" where
  "on_created self src_path = bnd (direct self src_path) (\<lambda>b. if b then update_dir self else ret ())"

definition on_deleted :: "nat \<Rightarrow> string \<Rightarrow> unit io" where
  "on_deleted self src_path = bnd (direct self src_path) (\<lambda>b. if b then update_dir self else ret ())"

definition on_modified :: "nat \<Rightarrow> string \<Rightarrow> unit io" where
  "on_modified self src_path = bnd (direct self src_path) (\<lambda>b. ret ())"

section \<open>The module\<close>

text \<open>
  The statement that the module runs when it is imported:
  \<^verbatim>\<open>runtime_properties.root = Folder('.', mode=FileMode.FIND)\<close>.
\<close>

definition module_import :: "nat io" where
  "module_import = bnd (construct CFolder (Str ''.'') FIND None) (\<lambda>i w. (Inr i, w\<lparr>rp_root := Some i\<rparr>))"

section \<open>A concrete process for the examples\<close>




section \<open>Resolution and removal\<close>





lemma walk_det: "walk f s ts = Inr q \<Longrightarrow> walk g s ts = Inr q' \<Longrightarrow> q' = q"
proof (induction ts arbitrary: s)
  case Nil
  then show ?case by simp
next
  case (Cons c cs)
  let ?n = "if c = ''..'' then butlast s else s @ [c]"
  from Cons.prems(1) have 1: "walk f ?n cs = Inr q"
    by (auto split: option.splits node.splits if_splits)
  from Cons.prems(2) have 2: "walk g ?n cs = Inr q'"
    by (auto split: option.splits node.splits if_splits)
  from Cons.IH[OF 1 2] show ?case .
qed

lemma stat_det: "stat w p = Inr (q, nd) \<Longrightarrow> cwd w' = cwd w \<Longrightarrow> stat w' p = Inr (q', nd') \<Longrightarrow> q' = q"
  by (auto simp: stat_def resolve_def split: sum.splits option.splits if_splits dest: walk_det)


lemma emptied_no_children:
  "\<not> list_ex (\<lambda>(k, n). k \<noteq> q \<and> is_under q k) (filter (\<lambda>(k, n). k = q \<or> \<not> is_under q k) f)"
  by (auto simp: list_ex_iff)

lemma filter_emptied:
  "filter (\<lambda>(k, n). k \<noteq> q) (filter (\<lambda>(k, n). k = q \<or> \<not> is_under q k) f)
     = filter (\<lambda>(k, n). \<not> is_under q k) f"
  by (induction f) (auto simp: is_under_def)


lemma rmtree_cases:
  assumes "stat w p = Inr (q, DirNode a)"
  shows "(\<exists>e. rmtree p w = (Inl e, w\<lparr>fs := filter (\<lambda>(k, n). k = q \<or> \<not> is_under q k) (fs w)\<rparr>)) \<or>
         rmtree p w = (Inr (), w\<lparr>fs := filter (\<lambda>(k, n). \<not> is_under q k) (fs w)\<rparr>)"
proof -
  let ?w1 = "w\<lparr>fs := filter (\<lambda>(k, n). k = q \<or> \<not> is_under q k) (fs w)\<rparr>"
  have r: "rmtree p w = os_rmdir p ?w1" using assms by (simp add: rmtree_def)
  show ?thesis
  proof (cases "stat ?w1 p")
    case (Inl e)
    then show ?thesis by (simp add: r os_rmdir_def)
  next
    case (Inr x)
    obtain q' nd where x: "x = (q', nd)" by (cases x)
    have q': "q' = q" using stat_det[OF assms _ Inr[unfolded x]] by simp
    show ?thesis
    proof (cases nd)
      case (FileNode b s)
      then show ?thesis using Inr x by (simp add: r os_rmdir_def)
    next
      case (DirNode b)
      then show ?thesis using Inr x q' emptied_no_children[of q "fs w"]
        by (simp add: r os_rmdir_def filter_emptied del: filter_filter)
    qed
  qed
qed











section \<open>Path resolution\<close>

lemma split_sep_nonempty: "split_sep s \<noteq> []"
  by (induction s) (auto split: list.splits)

lemma split_sep_plain: "CHR ''/'' \<notin> set x \<Longrightarrow> split_sep x = [x]"
  by (induction x) auto

lemma split_sep_append:
  "CHR ''/'' \<notin> set x \<Longrightarrow> split_sep (x @ CHR ''/'' # s) = x # split_sep s"
  by (induction x) auto

lemma split_sep_no_sep: "x \<in> set (split_sep s) \<Longrightarrow> CHR ''/'' \<notin> set x"
proof (induction s arbitrary: x)
  case Nil
  then show ?case by simp
next
  case (Cons c cs)
  then show ?case
    by (cases "split_sep cs") (auto split: if_splits)
qed

lemma split_join:
  "ts \<noteq> [] \<Longrightarrow> list_all (\<lambda>x. CHR ''/'' \<notin> set x) ts \<Longrightarrow> split_sep (join_sep ts) = ts"
proof (induction ts rule: join_sep.induct)
  case 1
  then show ?case by simp
next
  case (2 x)
  then show ?case by (simp add: split_sep_plain)
next
  case (3 x y ys)
  then show ?case by (simp add: split_sep_append)
qed

lemma join_sep_snoc: "ts \<noteq> [] \<Longrightarrow> join_sep (ts @ [x]) = join_sep ts @ CHR ''/'' # x"
  by (induction ts rule: join_sep.induct) auto

lemma segment_ends: "segment_ok x \<Longrightarrow> x \<noteq> [] \<and> hd x \<noteq> CHR ''/'' \<and> last x \<noteq> CHR ''/''"
  by (metis hd_in_set last_in_set segment_ok_def)

lemma join_sep_hd:
  "ts \<noteq> [] \<Longrightarrow> list_all segment_ok ts \<Longrightarrow> join_sep ts \<noteq> [] \<and> hd (join_sep ts) \<noteq> CHR ''/''"
  by (induction ts rule: join_sep.induct) (auto simp: hd_append dest: segment_ends)

lemma join_sep_last:
  "ts \<noteq> [] \<Longrightarrow> list_all segment_ok ts \<Longrightarrow> last (join_sep ts) \<noteq> CHR ''/''"
proof (induction ts rule: join_sep.induct)
  case 1
  then show ?case by simp
next
  case (2 x)
  then show ?case by (auto dest: segment_ends)
next
  case (3 x y ys)
  then have "join_sep (y # ys) \<noteq> []" using join_sep_hd[of "y # ys"] by simp
  with 3 show ?case by simp
qed

lemma wf_Path: "wf_path (Path s)"
  by (auto simp: wf_path_def Path_def list_all_iff segment_ok_def dest: split_sep_no_sep)


lemma Path_path_str:
  assumes "wf_path q"
  shows "Path (path_str q) = q"
proof -
  have segs: "list_all segment_ok (tail q)" using assms by (simp add: wf_path_def)
  then have ns: "list_all (\<lambda>x. CHR ''/'' \<notin> set x) (tail q)"
    by (simp add: list_all_iff segment_ok_def)
  have keep: "filter (\<lambda>x. x \<noteq> [] \<and> x \<noteq> ''.'') (tail q) = tail q"
    using segs by (simp add: list_all_iff segment_ok_def)
  show ?thesis
  proof (cases "tail q = []")
    case True
    then show ?thesis using assms
      by (cases q) (auto simp: wf_path_def path_str_def Path_def startswith_def)
  next
    case False
    note j = join_sep_hd[OF False segs]
    then obtain c cs where cs: "join_sep (tail q) = c # cs" "c \<noteq> CHR ''/''"
      by (cases "join_sep (tail q)") auto
    have sp: "split_sep (join_sep (tail q)) = tail q" using split_join[OF False ns] .
    have sp2: "split_sep (c # cs) = tail q" using sp cs by simp
    from assms consider "anchor q = []" | "anchor q = ''/''" | "anchor q = ''//''"
      by (auto simp: wf_path_def)
    then show ?thesis
    proof cases
      case 1
      then show ?thesis using cs sp keep
        by (cases q) (simp add: path_str_def Path_def startswith_def)
    next
      case 2
      then show ?thesis using cs sp2 keep
        by (cases q) (simp add: path_str_def Path_def startswith_def)
    next
      case 3
      then show ?thesis using cs sp2 keep
        by (cases q) (simp add: path_str_def Path_def startswith_def)
    qed
  qed
qed


lemma path_str_nonempty: "path_str q \<noteq> []"
  by (simp add: path_str_def Let_def)

lemma path_str_endswith_sep:
  assumes "wf_path q"
  shows "endswith (path_str q) ''/'' = (tail q = [] \<and> anchor q \<noteq> [])"
proof (cases "tail q = []")
  case True
  then show ?thesis using assms
    by (auto simp: wf_path_def path_str_def endswith_def)
next
  case False
  have segs: "list_all segment_ok (tail q)" using assms by (simp add: wf_path_def)
  have ne: "join_sep (tail q) \<noteq> []" using join_sep_hd[OF False segs] by simp
  have l: "last (join_sep (tail q)) \<noteq> CHR ''/''" using join_sep_last[OF False segs] .
  have "path_str q = anchor q @ join_sep (tail q)" using ne by (simp add: path_str_def)
  moreover have "last (anchor q @ join_sep (tail q)) \<noteq> CHR ''/''" using ne l by simp
  moreover have "endswith s ''/'' \<Longrightarrow> s \<noteq> [] \<Longrightarrow> last s = CHR ''/''" for s
    by (cases s rule: rev_cases) (auto simp: endswith_def)
  ultimately have "\<not> endswith (path_str q) ''/''" using ne by (metis append_is_Nil_conv)
  then show ?thesis using False by simp
qed

lemma join_segment:
  assumes "wf_path q" and "segment_ok x"
  shows "Path (os_path_join (path_str q) x) = \<lparr>anchor = anchor q, tail = tail q @ [x]\<rparr>"
proof -
  have x: "\<not> startswith x ''/''" using segment_ends[OF assms(2)]
    by (cases x) (auto simp: startswith_def)
  have w: "wf_path \<lparr>anchor = anchor q, tail = tail q @ [x]\<rparr>"
    using assms by (simp add: wf_path_def)
  show ?thesis
  proof (cases "tail q = []")
    case True
    show ?thesis
    proof (cases "anchor q = []")
      case True
      with \<open>tail q = []\<close> have s: "path_str q = ''.''" by (simp add: path_str_def)
      have "split_sep (''./'' @ x) = [''.'', x]"
        using split_sep_append[of "''.''" x] split_sep_plain[of x] assms(2)
        by (simp add: segment_ok_def)
      then show ?thesis using x assms(2) True \<open>tail q = []\<close>
        by (simp add: os_path_join_def s endswith_def Path_def startswith_def segment_ok_def)
    next
      case False
      then have e: "endswith (path_str q) ''/''"
        using path_str_endswith_sep[OF assms(1)] True by simp
      have "os_path_join (path_str q) x = path_str \<lparr>anchor = anchor q, tail = tail q @ [x]\<rparr>"
        using x e True False segment_ends[OF assms(2)]
        by (simp add: os_path_join_def path_str_def)
      then show ?thesis using Path_path_str[OF w] by simp
    qed
  next
    case False
    then have e: "\<not> endswith (path_str q) ''/''"
      using path_str_endswith_sep[OF assms(1)] by simp
    have segs: "list_all segment_ok (tail q)" using assms by (simp add: wf_path_def)
    have ne: "join_sep (tail q) \<noteq> []" using join_sep_hd[OF False segs] by simp
    have "os_path_join (path_str q) x = path_str \<lparr>anchor = anchor q, tail = tail q @ [x]\<rparr>"
      using x e False ne path_str_nonempty[of q]
      by (simp add: os_path_join_def path_str_def join_sep_snoc)
    then show ?thesis using Path_path_str[OF w] by simp
  qed
qed

lemma single_part:
  assumes "wf_path c" and "length (path_parts c) = 1"
  shows "(anchor c \<noteq> [] \<and> tail c = [] \<and> path_str c = anchor c) \<or>
         (anchor c = [] \<and> (\<exists>x. tail c = [x] \<and> segment_ok x \<and> path_str c = x))"
proof (cases "anchor c = []")
  case True
  with assms(2) obtain x where x: "tail c = [x]"
    by (cases "tail c") (auto simp: path_parts_def)
  then have "segment_ok x" using assms(1) by (simp add: wf_path_def)
  then show ?thesis using True x by (auto simp: path_str_def segment_ok_def)
next
  case False
  with assms(2) have "tail c = []" by (simp add: path_parts_def)
  then show ?thesis using False by (simp add: path_str_def)
qed

text \<open>
  C5, as amended. \<^verbatim>\<open>parse_path\<close> is a function of its two arguments alone. Without a
  parent it returns the given path as a \<^verbatim>\<open>Path\<close> object, unchanged (a relative path stays
  relative). With a parent, a given path that does not have exactly one part is rejected
  by the \<^verbatim>\<open>assert\<close> (so is every path of more than one segment); otherwise the result,
  which the program builds on strings, is the parent's path joined with the given part
  as \<^verbatim>\<open>pathlib\<close> joins them. The paths are well-formed \<^verbatim>\<open>Path\<close> objects, as every parsed
  string is (\<open>wf_Path\<close>); \<^verbatim>\<open>assert\<close> statements are taken as enabled.
\<close>

theorem parse_path_resolves:
  assumes "wf_path (ensure_path pth)"
      and "\<forall>par. parent = Some par \<longrightarrow> wf_path (ensure_path par)"
  shows "parse_path parent pth =
     (case parent of
        None \<Rightarrow> Inr (ensure_path pth)
      | Some par \<Rightarrow>
          if length (path_parts (ensure_path pth)) = 1
          then Inr (path_joinpath (ensure_path par) (ensure_path pth))
          else Inl AssertionError)"
proof (cases parent)
  case None
  then show ?thesis by (simp add: parse_path_def)
next
  case (Some par)
  then have wp: "wf_path (ensure_path par)" using assms(2) by simp
  show ?thesis
  proof (cases "length (path_parts (ensure_path pth)) = 1")
    case False
    then show ?thesis using Some by (simp add: parse_path_def)
  next
    case True
    from single_part[OF assms(1) True] show ?thesis
    proof
      assume a: "anchor (ensure_path pth) \<noteq> [] \<and> tail (ensure_path pth) = [] \<and>
                 path_str (ensure_path pth) = anchor (ensure_path pth)"
      then have "startswith (path_str (ensure_path pth)) ''/''"
        using assms(1) by (auto simp: wf_path_def startswith_def)
      then have "os_path_join (path_str (ensure_path par)) (path_str (ensure_path pth))
                 = path_str (ensure_path pth)"
        by (simp add: os_path_join_def)
      then show ?thesis using Some True a Path_path_str[OF assms(1)]
        by (simp add: parse_path_def path_joinpath_def)
    next
      assume "anchor (ensure_path pth) = [] \<and>
              (\<exists>x. tail (ensure_path pth) = [x] \<and> segment_ok x \<and> path_str (ensure_path pth) = x)"
      then obtain x where x: "anchor (ensure_path pth) = []" "tail (ensure_path pth) = [x]"
        "segment_ok x" "path_str (ensure_path pth) = x" by auto
      show ?thesis using Some True x join_segment[OF wp x(3)]
        by (simp add: parse_path_def path_joinpath_def)
    qed
  qed
qed

text \<open>
  The claim as the specification states it fails: without a parent the relative path
  \<^verbatim>\<open>'arg'\<close> comes back relative, not normalised to an absolute path; and with a parent
  the value \<^verbatim>\<open>'a/'\<close>, which contains the separator, is accepted, since it has one part.
\<close>

theorem parse_path_counterexample:
  "parse_path None (Str ''arg'') = Inr \<lparr>anchor = [], tail = [''arg'']\<rparr> \<and>
   \<not> is_absolute \<lparr>anchor = [], tail = [''arg'']\<rparr> \<and>
   parse_path (Some (Str ''par'')) (Str ''a/'') = Inr \<lparr>anchor = [], tail = [''par'', ''a'']\<rparr>"
  by (simp add: parse_path_def ensure_path_def Path_def startswith_def is_absolute_def
      path_parts_def path_str_def os_path_join_def endswith_def)

text \<open>
  One file name under an absolute parent, a two-segment name under the same parent, and
  an absolute path without parent.
\<close>

theorem parse_path_resolves_witness:
  "wf_path (ensure_path (Str ''hello.txt'')) \<and> wf_path (ensure_path (Str ''/home/u/arg'')) \<and>
   parse_path (Some (Str ''/home/u/arg'')) (Str ''hello.txt'')
     = Inr \<lparr>anchor = ''/'', tail = [''home'', ''u'', ''arg'', ''hello.txt'']\<rparr> \<and>
   parse_path (Some (Str ''/home/u/arg'')) (Str ''sub/hello.txt'') = Inl AssertionError \<and>
   parse_path None (Str ''/home/u/arg'') = Inr \<lparr>anchor = ''/'', tail = [''home'', ''u'', ''arg'']\<rparr>"
proof -
  have w: "wf_path (ensure_path (Str s))" for s by (simp add: ensure_path_def wf_Path)
  have a: "\<forall>par. Some (Str ''/home/u/arg'') = Some par \<longrightarrow> wf_path (ensure_path par)"
    using w by simp
  have n: "\<forall>par. (None :: pathlike option) = Some par \<longrightarrow> wf_path (ensure_path par)" by simp
  have e1: "ensure_path (Str ''hello.txt'') = \<lparr>anchor = [], tail = [''hello.txt'']\<rparr>"
    by (simp add: ensure_path_def Path_def startswith_def)
  have e2: "ensure_path (Str ''/home/u/arg'') = \<lparr>anchor = ''/'', tail = [''home'', ''u'', ''arg'']\<rparr>"
    by (simp add: ensure_path_def Path_def startswith_def)
  have e3: "ensure_path (Str ''sub/hello.txt'') = \<lparr>anchor = [], tail = [''sub'', ''hello.txt'']\<rparr>"
    by (simp add: ensure_path_def Path_def startswith_def)
  show ?thesis
    using w parse_path_resolves[OF w a, of "''hello.txt''"]
          parse_path_resolves[OF w a, of "''sub/hello.txt''"]
          parse_path_resolves[OF w n, of "''/home/u/arg''"]
    by (simp add: e1 e2 e3 path_parts_def path_joinpath_def wf_path_def segment_ok_def)
qed

end
